theory Spec2Isabelle
  imports Main "HOL-Library.Sublist"
begin

section \<open>Data model of package registry\<close>

text \<open>
  Byte slices and Go strings are both modelled as \<open>string\<close> (a list of 8-bit characters).
\<close>

type_synonym bytes = string

text \<open>
  A decoded JSON value, as \<open>encoding/json\<close> stores it in an \<open>interface{}\<close>:
  \<open>nil\<close>, \<open>bool\<close>, \<open>float64\<close>, \<open>string\<close>, \<open>[]interface{}\<close> or
  \<open>map[string]interface{}\<close>. The package never inspects a number, so its payload is
  kept as an integer. A map is an association list read with \<open>map_of\<close>.
\<close>

datatype json =
    JNull
  | JBool bool
  | JNumber int
  | JString string
  | JArray "json list"
  | JObject "(string \<times> json) list"

type_synonym object = "(string \<times> json) list"

text \<open>
  Errors produced outside the package: by the registry transport, the secret store, the
  gzip, tar and JSON decoders (\<open>Opaque\<close>, with the message), and by the accessors of
  \<open>unstructured\<close> (\<open>AccessorError\<close>: the path reached and the value found there).
\<close>

datatype lib_error =
    Opaque string
  | AccessorError "string list" json

text \<open>
  The errors of the package, one constructor for each \<open>fmt.Errorf\<close>/\<open>errors.New\<close> of
  registry.go, with the arguments of the format string; \<open>Lib\<close> is an error of a callee
  returned unchanged.
\<close>

datatype error =
    Lib lib_error
  | FailedToParseImageURL string
    \<comment> \<open>failed to parse image url: %s\<close>
  | CouldNotRetrievePullSecrets lib_error
    \<comment> \<open>could not retrieve pull secrets, [%w]\<close>
  | NoDataContentInSecret
    \<comment> \<open>could not find data content in the secret\<close>
  | FailedToUnmarshalAuths
    \<comment> \<open>failed to unmarshal auths\<close>
  | NoAuthForRegistry string
    \<comment> \<open>cluster PullSecret does not contain auth for registry %s\<close>
  | FailedToGet string "lib_error option" bool
    \<comment> \<open>failed to get <field> from etc/driver-toolkit-release.json: err %w, found %t\<close>
  | FailedToFindSpecTag "lib_error option" bool
    \<comment> \<open>failed to find spec/tag in the release-manifests/image-references: err %w, found %t\<close>
  | MissingFromTag
    \<comment> \<open>invalid image reference format for driver toolkit entry, missing `from` tag\<close>
  | MissingNameTag
    \<comment> \<open>invalid image reference format for driver toolkit entry, missing `name` tag\<close>
  | DriverToolkitNotFound
    \<comment> \<open>failed to find driver-toolkit in the release-manifests/image-references\<close>
  | FailedToFindSpecTags "lib_error option" bool
    \<comment> \<open>failed to find spec/tags in release-manifests/image-references: error %w, found %t\<close>
  | InvalidAnnotationsTag
    \<comment> \<open>invalid machine-os-content format, annotations tag\<close>
  | InvalidBuildVersionsTag
    \<comment> \<open>invalid machine-os-content format, io.openshift.build.versions tag\<close>
  | MachineOSContentNotFound
    \<comment> \<open>failed to find machine-os-content in the release-manifests/image-references\<close>
  | NoHashOrTag string
    \<comment> \<open>image url %s is not valid, does not contain hash or tag\<close>
  | MediaTypeMissing string
    \<comment> \<open>mediaType is missing from the image %s manifest\<close>
  | ArchitectureNotFound string
    \<comment> \<open>Failed to find manifest for architecture %s\<close>
  | HeaderNotFound string
    \<comment> \<open>header %s not found in the layer\<close>

text \<open>
  Run-time panics of Go: an index out of range (index and length) and a failed
  single-value type assertion (the value asserted on).
\<close>

datatype panic =
    IndexOutOfRange int nat
  | InterfaceConversion json

text \<open>
  What a call of a method that may panic does: it returns its (value, error) pair, here
  a sum, or it panics.
\<close>

datatype 'a outcome =
    Returns "error + 'a"
  | Panics panic

record DriverToolkitEntry =
  ImageURL :: string
  KernelFullVersion :: string
  RTKernelFullVersion :: string
  OSVersion :: string

record dockerAuth =
  Auth :: string
  Email :: string

text \<open>\<open>authn.AuthConfig\<close>, of which the package sets two fields.\<close>

record AuthConfig =
  Username :: string
  AuthConfig_Auth :: string

text \<open>\<open>crane.Option\<close>: the only option the package builds is \<open>crane.WithAuth\<close>.\<close>

datatype crane_Option = WithAuth AuthConfig

text \<open>\<open>v1.Hash\<close>, \<open>v1.Platform\<close>, \<open>v1.Descriptor\<close>, \<open>v1.Manifest\<close> and
  \<open>v1.IndexManifest\<close>, with the fields the package reads. \<open>Platform\<close> is a pointer
  in Go, \<open>None\<close> is \<open>nil\<close>.\<close>

record Hash =
  Algorithm :: string
  Hex :: string

record Platform =
  Architecture :: string

record Descriptor =
  Digest :: Hash
  Platform :: "Platform option"

record Manifest =
  Layers :: "Descriptor list"

record IndexManifest =
  Manifests :: "Descriptor list"

text \<open>
  A \<open>v1.Layer\<close> as getHeaderFromLayer sees it. \<open>layer.Compressed()\<close> fails, or
  \<open>gzip.NewReader\<close> fails on its stream, or the tar reader over it yields a sequence
  of results of \<open>tr.Next()\<close>: a non-EOF error, or the header of an entry, of which only
  the name is read, together with what \<open>io.ReadAll(tr)\<close> gives for that entry. After
  the last item \<open>tr.Next()\<close> returns \<open>io.EOF\<close>.
\<close>

datatype tar_item =
    NextError lib_error
  | Entry string "lib_error + bytes"

datatype layer =
    CompressedError lib_error
  | GzipError lib_error
  | TarGz "tar_item list"

text \<open>\<open>corev1.Secret\<close>: only \<open>Data\<close> is read.\<close>

record Secret =
  Data :: "string \<rightharpoonup> bytes"

text \<open>\<open>url.URL\<close>: only \<open>Host\<close> is read.\<close>

record URL =
  Host :: string

text \<open>
  The receiver \<open>r\<close> (its \<open>kubeClient\<close>) and the imported packages whose functions
  the methods call: \<open>url.Parse\<close>, \<open>crane.Manifest\<close>, \<open>crane.PullLayer\<close>,
  \<open>runtime.GOARCH\<close> and \<open>json.Unmarshal\<close> at each of the four target types it is
  used with (the anonymous struct with \<open>Auths\<close>, \<open>map[string]interface{}\<close>,
  \<open>v1.Manifest\<close>, \<open>v1.IndexManifest\<close>). Decoding \<open>null\<close> into a map leaves it
  \<open>nil\<close>, which reads like the empty map.
\<close>

record env =
  GetSecret :: "string \<Rightarrow> string \<Rightarrow> lib_error + Secret"
  url_Parse :: "string \<Rightarrow> lib_error + URL"
  crane_Manifest :: "string \<Rightarrow> crane_Option list \<Rightarrow> lib_error + bytes"
  crane_PullLayer :: "string \<Rightarrow> crane_Option list \<Rightarrow> lib_error + layer"
  GOARCH :: string
  Unmarshal_Auths :: "bytes \<Rightarrow> lib_error + (string \<rightharpoonup> dockerAuth)"
  Unmarshal_Object :: "bytes \<Rightarrow> lib_error + object"
  Unmarshal_Manifest :: "bytes \<Rightarrow> lib_error + Manifest"
  Unmarshal_IndexManifest :: "bytes \<Rightarrow> lib_error + IndexManifest"

definition pullSecretNamespace :: string where
  "pullSecretNamespace = ''openshift-config''"

definition pullSecretName :: string where
  "pullSecretName = ''pull-secret''"

definition pullSecretFileName :: string where
  "pullSecretFileName = ''.dockerconfigjson''"


section \<open>The accessors of unstructured\<close>

text \<open>
  \<open>unstructured.NestedFieldNoCopy\<close>, \<open>NestedString\<close> and \<open>NestedSlice\<close> of
  k8s.io/apimachinery, each returning (value, found, err). The walk stops with
  found = false at a \<open>nil\<close> value or a missing key, and with an error at a value that
  is not a map; the path in the error is the prefix of the fields walked so far.
\<close>

fun NestedFieldNoCopy_from :: "string list \<Rightarrow> json \<Rightarrow> string list \<Rightarrow> json \<times> bool \<times> lib_error option" where
  "NestedFieldNoCopy_from seen val [] = (val, True, None)"
| "NestedFieldNoCopy_from seen val (field # rest) =
     (case val of
        JNull \<Rightarrow> (JNull, False, None)
      | JObject m \<Rightarrow>
          (case map_of m field of
             None \<Rightarrow> (JNull, False, None)
           | Some v \<Rightarrow> NestedFieldNoCopy_from (seen @ [field]) v rest)
      | _ \<Rightarrow> (JNull, False, Some (AccessorError (seen @ [field]) val)))"

definition NestedFieldNoCopy :: "object \<Rightarrow> string list \<Rightarrow> json \<times> bool \<times> lib_error option" where
  "NestedFieldNoCopy obj path = NestedFieldNoCopy_from [] (JObject obj) path"

definition NestedString :: "object \<Rightarrow> string list \<Rightarrow> string \<times> bool \<times> lib_error option" where
  "NestedString obj path =
     (case NestedFieldNoCopy obj path of
        (val, found, err) \<Rightarrow>
          if \<not> found \<or> err \<noteq> None then ('''', found, err)
          else (case val of
                  JString s \<Rightarrow> (s, True, None)
                | _ \<Rightarrow> ('''', False, Some (AccessorError path val))))"

definition NestedSlice :: "object \<Rightarrow> string list \<Rightarrow> json list \<times> bool \<times> lib_error option" where
  "NestedSlice obj path =
     (case NestedFieldNoCopy obj path of
        (val, found, err) \<Rightarrow>
          if \<not> found \<or> err \<noteq> None then ([], found, err)
          else (case val of
                  JArray xs \<Rightarrow> (xs, True, None)
                | _ \<Rightarrow> ([], False, Some (AccessorError path val))))"


section \<open>getHeaderFromLayer\<close>

text \<open>
  The loop of getHeaderFromLayer over the tar reader. The second component of the
  result is the state of the reader when the function returns: the items that no call
  of \<open>tr.Next()\<close> has consumed.
\<close>

fun scanHeaders :: "env \<Rightarrow> string \<Rightarrow> tar_item list \<Rightarrow> (error + object) \<times> tar_item list" where
  "scanHeaders r headerName [] = (Inl (HeaderNotFound headerName), [])"
| "scanHeaders r headerName (NextError err # rest) = (Inl (Lib err), rest)"
| "scanHeaders r headerName (Entry name content # rest) =
     (if name = headerName then
        (case content of
           Inl err \<Rightarrow> (Inl (Lib err), rest)
         | Inr buff \<Rightarrow>
             (case Unmarshal_Object r buff of
                Inl err \<Rightarrow> (Inl (Lib err), rest)
              | Inr obj \<Rightarrow> (Inr obj, rest)))
      else scanHeaders r headerName rest)"

definition getHeaderFromLayer :: "env \<Rightarrow> layer \<Rightarrow> string \<Rightarrow> error + object" where
  "getHeaderFromLayer r l headerName =
     (case l of
        CompressedError err \<Rightarrow> Inl (Lib err)
      | GzipError err \<Rightarrow> Inl (Lib err)
      | TarGz items \<Rightarrow> fst (scanHeaders r headerName items))"


section \<open>The metadata projectors\<close>

definition ExtractToolkitRelease :: "env \<Rightarrow> layer \<Rightarrow> error + DriverToolkitEntry" where
  "ExtractToolkitRelease r l =
     (let dtk = \<lparr>ImageURL = '''', KernelFullVersion = '''', RTKernelFullVersion = '''',
                  OSVersion = ''''\<rparr> in
      case getHeaderFromLayer r l ''etc/driver-toolkit-release.json'' of
        Inl err \<Rightarrow> Inl err
      | Inr obj \<Rightarrow>
          (case NestedString obj [''KERNEL_VERSION''] of
             (kernelVersion, found, err) \<Rightarrow>
               if \<not> found \<or> err \<noteq> None then Inl (FailedToGet ''KERNEL_VERSION'' err found)
               else let dtk = dtk\<lparr>KernelFullVersion := kernelVersion\<rparr> in
                 (case NestedString obj [''RT_KERNEL_VERSION''] of
                    (rtVersion, found, err) \<Rightarrow>
                      if \<not> found \<or> err \<noteq> None
                      then Inl (FailedToGet ''RT_KERNEL_VERSION'' err found)
                      else let dtk = dtk\<lparr>RTKernelFullVersion := rtVersion\<rparr> in
                        (case NestedString obj [''RHEL_VERSION''] of
                           (osVersion, found, err) \<Rightarrow>
                             if \<not> found \<or> err \<noteq> None
                             then Inl (FailedToGet ''RHEL_VERSION'' err found)
                             else Inr (dtk\<lparr>OSVersion := osVersion\<rparr>)))))"

text \<open>
  The loop of ReleaseManifests over \<open>tags\<close>. \<open>tag.(map[string]interface{})\<close> and
  \<open>from.(map[string]interface{})\<close> are single-value type assertions, which panic on a
  value of another type (also on \<open>nil\<close>); \<open>x.(string)\<close> with \<open>ok\<close> does not.
  Comparing an \<open>interface{}\<close> with a string constant is true only for that string.
\<close>

fun ReleaseManifests_tags :: "json list \<Rightarrow> string outcome" where
  "ReleaseManifests_tags [] = Returns (Inl DriverToolkitNotFound)"
| "ReleaseManifests_tags (tag # tags) =
     (case tag of
        JObject m \<Rightarrow>
          if map_of m ''name'' = Some (JString ''driver-toolkit'') then
            (case map_of m ''from'' of
               None \<Rightarrow> Returns (Inl MissingFromTag)
             | Some from \<Rightarrow>
                 (case from of
                    JObject fm \<Rightarrow>
                      (case map_of fm ''name'' of
                         Some (JString imageURL) \<Rightarrow> Returns (Inr imageURL)
                       | _ \<Rightarrow> Returns (Inl MissingNameTag))
                  | _ \<Rightarrow> Panics (InterfaceConversion from)))
          else ReleaseManifests_tags tags
      | _ \<Rightarrow> Panics (InterfaceConversion tag))"

definition ReleaseManifests :: "env \<Rightarrow> layer \<Rightarrow> string outcome" where
  "ReleaseManifests r l =
     (case getHeaderFromLayer r l ''release-manifests/image-references'' of
        Inl err \<Rightarrow> Returns (Inl err)
      | Inr obj \<Rightarrow>
          (case NestedSlice obj [''spec'', ''tags''] of
             (tags, found, err) \<Rightarrow>
               if \<not> found \<or> err \<noteq> None then Returns (Inl (FailedToFindSpecTag err found))
               else ReleaseManifests_tags tags))"

fun ReleaseImageMachineOSConfig_tags :: "json list \<Rightarrow> string outcome" where
  "ReleaseImageMachineOSConfig_tags [] = Returns (Inl MachineOSContentNotFound)"
| "ReleaseImageMachineOSConfig_tags (tag # tags) =
     (case tag of
        JObject m \<Rightarrow>
          if map_of m ''name'' = Some (JString ''machine-os-content'') then
            (case map_of m ''annotations'' of
               None \<Rightarrow> Returns (Inl InvalidAnnotationsTag)
             | Some annotations \<Rightarrow>
                 (case annotations of
                    JObject am \<Rightarrow>
                      (case map_of am ''io.openshift.build.versions'' of
                         Some (JString osVersion) \<Rightarrow> Returns (Inr osVersion)
                       | _ \<Rightarrow> Returns (Inl InvalidBuildVersionsTag))
                  | _ \<Rightarrow> Panics (InterfaceConversion annotations)))
          else ReleaseImageMachineOSConfig_tags tags
      | _ \<Rightarrow> Panics (InterfaceConversion tag))"

definition ReleaseImageMachineOSConfig :: "env \<Rightarrow> layer \<Rightarrow> string outcome" where
  "ReleaseImageMachineOSConfig r l =
     (case getHeaderFromLayer r l ''release-manifests/image-references'' of
        Inl err \<Rightarrow> Returns (Inl err)
      | Inr obj \<Rightarrow>
          (case NestedSlice obj [''spec'', ''tags''] of
             (tags, found, err) \<Rightarrow>
               if \<not> found \<or> err \<noteq> None then Returns (Inl (FailedToFindSpecTags err found))
               else ReleaseImageMachineOSConfig_tags tags))"


section \<open>Image reference, credentials, manifest and digests\<close>

text \<open>
  \<open>strings.Split(s, sep)\<close> for a separator of one byte, as the package calls it: the
  pieces of \<open>s\<close> between the occurrences of \<open>sep\<close>, one more than there are
  occurrences. \<open>strings.Contains(s, substr)\<close>: \<open>substr\<close> occurs in \<open>s\<close>.
\<close>

fun strings_Split :: "string \<Rightarrow> char \<Rightarrow> string list" where
  "strings_Split [] sep = [[]]"
| "strings_Split (c # s) sep =
     (if c = sep then [] # strings_Split s sep
      else (case strings_Split s sep of
              [] \<Rightarrow> [[c]]
            | piece # pieces \<Rightarrow> (c # piece) # pieces))"

fun strings_Contains :: "string \<Rightarrow> string \<Rightarrow> bool" where
  "strings_Contains [] substr = (substr = [])"
| "strings_Contains (c # s) substr = (prefix substr (c # s) \<or> strings_Contains s substr)"

definition registryFromImageURL :: "env \<Rightarrow> string \<Rightarrow> error + string" where
  "registryFromImageURL r img =
     (let res = url_Parse r img;
          res = (case res of
                   Inl err \<Rightarrow> url_Parse r (''//'' @ img)
                 | Inr u \<Rightarrow> if Host u = '''' then url_Parse r (''//'' @ img) else res)
      in case res of
           Inl err \<Rightarrow> Inl (FailedToParseImageURL img)
         | Inr u \<Rightarrow> if Host u = '''' then Inl (FailedToParseImageURL img) else Inr (Host u))"

definition getImageRegistryCredentials :: "env \<Rightarrow> string \<Rightarrow> error + dockerAuth" where
  "getImageRegistryCredentials r registry =
     (case GetSecret r pullSecretNamespace pullSecretName of
        Inl err \<Rightarrow> Inl (CouldNotRetrievePullSecrets err)
      | Inr s \<Rightarrow>
          (case Data s pullSecretFileName of
             None \<Rightarrow> Inl NoDataContentInSecret
           | Some pullSecretData \<Rightarrow>
               (case Unmarshal_Auths r pullSecretData of
                  Inl err \<Rightarrow> Inl FailedToUnmarshalAuths
                | Inr auths \<Rightarrow>
                    (case auths registry of
                       None \<Rightarrow> Inl (NoAuthForRegistry registry)
                     | Some auth \<Rightarrow> Inr auth))))"

definition digestString :: "Hash \<Rightarrow> string" where
  "digestString h = Algorithm h @ '':'' @ Hex h"

fun findArchitecture :: "string \<Rightarrow> Descriptor list \<Rightarrow> error + string" where
  "findArchitecture arch [] = Inl (ArchitectureNotFound arch)"
| "findArchitecture arch (manifest # manifests) =
     (case Platform manifest of
        Some p \<Rightarrow>
          if Architecture p = arch then Inr (digestString (Digest manifest))
          else findArchitecture arch manifests
      | None \<Rightarrow> findArchitecture arch manifests)"

definition getImageDigestFromMultiImage :: "env \<Rightarrow> bytes \<Rightarrow> error + string" where
  "getImageDigestFromMultiImage r manifestListStream =
     (let arch = GOARCH r in
      case Unmarshal_IndexManifest r manifestListStream of
        Inl err \<Rightarrow> Inl (Lib err)
      | Inr manifestList \<Rightarrow> findArchitecture arch (Manifests manifestList))"

definition getManifestStreamFromImage :: "env \<Rightarrow> string \<Rightarrow> string \<Rightarrow> crane_Option list \<Rightarrow> error + bytes" where
  "getManifestStreamFromImage r img repo options =
     (case crane_Manifest r img options of
        Inl err \<Rightarrow> Inl (Lib err)
      | Inr manifest \<Rightarrow>
          (case Unmarshal_Object r manifest of
             Inl err \<Rightarrow> Inl (Lib err)
           | Inr release \<Rightarrow>
               (case NestedString release [''mediaType''] of
                  (imageMediaType, mediaTypeFound, err) \<Rightarrow>
                    (case err of
                       Some e \<Rightarrow> Inl (Lib e)
                     | None \<Rightarrow>
                         if \<not> mediaTypeFound then Inl (MediaTypeMissing img)
                         else if strings_Contains imageMediaType ''manifest.list'' then
                           (case getImageDigestFromMultiImage r manifest of
                              Inl err \<Rightarrow> Inl err
                            | Inr archDigest \<Rightarrow>
                                (case crane_Manifest r (repo @ ''@'' @ archDigest) options of
                                   Inl err \<Rightarrow> Inl (Lib err)
                                 | Inr manifest \<Rightarrow> Inr manifest))
                         else Inr manifest))))"

definition getLayersDigestsFromManifestStream :: "env \<Rightarrow> bytes \<Rightarrow> error + string list" where
  "getLayersDigestsFromManifestStream r manifestStream =
     (case Unmarshal_Manifest r manifestStream of
        Inl err \<Rightarrow> Inl (Lib err)
      | Inr manifest \<Rightarrow> Inr (map (\<lambda>layer. digestString (Digest layer)) (Layers manifest)))"

text \<open>The repository name and the options that GetLayersDigests derives before its
  first call of the transport.\<close>

definition repoOf :: "string \<Rightarrow> string" where
  "repoOf img =
     (let hash = strings_Split img CHR ''@'' in
      if length hash > 1 then hash ! 0
      else let tag = strings_Split img CHR '':'' in
        if length tag > 1 then tag ! 0 else '''')"

definition registryAuthsOf :: "dockerAuth \<Rightarrow> crane_Option list" where
  "registryAuthsOf auth =
     (if Auth auth \<noteq> '''' then [WithAuth \<lparr>Username = Email auth, AuthConfig_Auth = Auth auth\<rparr>]
      else [])"

definition GetLayersDigests :: "env \<Rightarrow> string \<Rightarrow> error + (string \<times> string list \<times> crane_Option list)" where
  "GetLayersDigests r img =
     (case registryFromImageURL r img of
        Inl err \<Rightarrow> Inl err
      | Inr registry \<Rightarrow>
          (case getImageRegistryCredentials r registry of
             Inl err \<Rightarrow> Inl err
           | Inr auth \<Rightarrow>
               (let repo = repoOf img in
                if repo = '''' then Inl (NoHashOrTag img)
                else let registryAuths = registryAuthsOf auth in
                  (case getManifestStreamFromImage r img repo registryAuths of
                     Inl err \<Rightarrow> Inl err
                   | Inr manifest \<Rightarrow>
                       (case getLayersDigestsFromManifestStream r manifest of
                          Inl err \<Rightarrow> Inl err
                        | Inr digests \<Rightarrow> Inr (repo, digests, registryAuths))))))"

definition PullLayer :: "env \<Rightarrow> string \<Rightarrow> crane_Option list \<Rightarrow> error + layer" where
  "PullLayer r ref options =
     (case crane_PullLayer r ref options of Inl err \<Rightarrow> Inl (Lib err) | Inr l \<Rightarrow> Inr l)"

definition GetLayerByDigest :: "env \<Rightarrow> string \<Rightarrow> string \<Rightarrow> crane_Option list \<Rightarrow> error + layer" where
  "GetLayerByDigest r repo digest auth = PullLayer r (repo @ ''@'' @ digest) auth"

text \<open>
  LastLayer indexes \<open>digests[len(digests)-1]\<close> with no check of the length: at the
  empty list the index is -1 and the access panics.
\<close>

definition LastLayer :: "env \<Rightarrow> string \<Rightarrow> layer outcome" where
  "LastLayer r img =
     (case GetLayersDigests r img of
        Inl err \<Rightarrow> Returns (Inl err)
      | Inr (repo, digests, registryAuths) \<Rightarrow>
          (let i = int (length digests) - 1 in
           if 0 \<le> i \<and> i < int (length digests)
           then Returns (PullLayer r (repo @ ''@'' @ digests ! nat i) registryAuths)
           else Panics (IndexOutOfRange i (length digests))))"


section \<open>A test double of the collaborators\<close>

text \<open>
  A small world to run the methods in. The decoders are tables from the bytes of a
  document to what \<open>json.Unmarshal\<close> gives for it, the transport is a table from
  references to manifests and layers, and \<open>url.Parse\<close> finds a host only after a
  leading \<open>//\<close>, which is what net/url does on the references used below.
\<close>

definition example_release :: object where
  "example_release =
     [(''KERNEL_VERSION'', JString ''5.14.0''),
      (''RT_KERNEL_VERSION'', JString ''5.14.0-rt''),
      (''RHEL_VERSION'', JString ''9.2'')]"

definition example_release_no_rt :: object where
  "example_release_no_rt =
     [(''KERNEL_VERSION'', JString ''5.14.0''), (''RHEL_VERSION'', JString ''9.2'')]"

definition example_release_only_rhel :: object where
  "example_release_only_rhel = [(''RHEL_VERSION'', JString ''9.2'')]"

definition example_tags :: "json list" where
  "example_tags =
     [JObject [(''name'', JString ''foo'')],
      JObject [(''name'', JString ''driver-toolkit''),
               (''from'', JObject [(''name'', JString ''reg.io/dtk:v1'')])],
      JObject [(''name'', JString ''machine-os-content''),
               (''annotations'',
                JObject [(''io.openshift.build.versions'', JString ''machine-os=9.2'')])],
      JNumber 5]"

definition example_references :: object where
  "example_references = [(''spec'', JObject [(''tags'', JArray example_tags)])]"

definition example_bad_tags :: "json list" where
  "example_bad_tags =
     [JObject [(''name'', JString ''foo'')],
      JString ''driver-toolkit'',
      JObject [(''name'', JString ''driver-toolkit''),
               (''from'', JObject [(''name'', JString ''reg.io/dtk:v1'')])]]"

definition example_references_bad_tag :: object where
  "example_references_bad_tag = [(''spec'', JObject [(''tags'', JArray example_bad_tags)])]"

definition example_objects :: "(bytes \<times> object) list" where
  "example_objects =
     [(''<release>'', example_release),
      (''<release-no-rt>'', example_release_no_rt),
      (''<release-only-rhel>'', example_release_only_rhel),
      (''<image-references>'', example_references),
      (''<image-references-bad-tag>'', example_references_bad_tag),
      (''<manifest-3>'',
         [(''mediaType'', JString ''application/vnd.docker.distribution.manifest.v2+json'')]),
      (''<manifest-0>'',
         [(''mediaType'', JString ''application/vnd.docker.distribution.manifest.v2+json'')]),
      (''<index>'',
         [(''mediaType'', JString ''application/vnd.docker.distribution.manifest.list.v2+json'')]),
      (''<index-arm-only>'',
         [(''mediaType'', JString ''application/vnd.docker.distribution.manifest.list.v2+json'')]),
      (''<oci-index>'',
         [(''mediaType'', JString ''application/vnd.oci.image.index.v1+json'')])]"

definition example_release_layer :: layer where
  "example_release_layer =
     TarGz [Entry ''a/b.json'' (Inr ''<other>''),
            Entry ''etc/driver-toolkit-release.json'' (Inr ''<release>''),
            Entry ''c.txt'' (Inr ''<text>'')]"

definition example_no_rt_layer :: layer where
  "example_no_rt_layer = TarGz [Entry ''etc/driver-toolkit-release.json'' (Inr ''<release-no-rt>'')]"

definition example_only_rhel_layer :: layer where
  "example_only_rhel_layer =
     TarGz [Entry ''etc/driver-toolkit-release.json'' (Inr ''<release-only-rhel>'')]"

definition example_references_layer :: layer where
  "example_references_layer =
     TarGz [Entry ''release-manifests/image-references'' (Inr ''<image-references>'')]"

definition example_bad_tag_layer :: layer where
  "example_bad_tag_layer =
     TarGz [Entry ''release-manifests/image-references'' (Inr ''<image-references-bad-tag>'')]"

definition example_descriptor :: "string \<Rightarrow> string option \<Rightarrow> Descriptor" where
  "example_descriptor hex arch =
     \<lparr>Digest = \<lparr>Algorithm = ''sha256'', Hex = hex\<rparr>,
      Platform = map_option (\<lambda>a. \<lparr>Architecture = a\<rparr>) arch\<rparr>"

definition example_manifests :: "(string \<times> bytes) list" where
  "example_manifests =
     [(''reg.io/dtk:v1'', ''<manifest-3>''),
      (''reg.io/empty:v1'', ''<manifest-0>''),
      (''reg.io/multi:v1'', ''<index>''),
      (''reg.io/multi@sha256:d1'', ''<manifest-3>''),
      (''reg.io/arm:v1'', ''<index-arm-only>''),
      (''reg.io/oci:v1'', ''<oci-index>''),
      (''reg.io/oci@sha256:d1'', ''<manifest-3>''),
      (''localhost:5000/repo'', ''<manifest-3>'')]"

definition example_layers :: "(string \<times> layer) list" where
  "example_layers =
     [(''reg.io/dtk@sha256:c2'', example_release_layer),
      (''reg.io/dtk@sha256:c0'', example_references_layer)]"

definition example_auths :: "(string \<times> dockerAuth) list" where
  "example_auths =
     [(''reg.io'', \<lparr>Auth = ''abc'', Email = ''e@x.com''\<rparr>),
      (''localhost:5000'', \<lparr>Auth = '''', Email = ''''\<rparr>)]"

definition example_env :: env where
  "example_env =
     \<lparr>GetSecret = (\<lambda>ns name.
        if ns = ''openshift-config'' \<and> name = ''pull-secret''
        then Inr \<lparr>Data = map_of [(''.dockerconfigjson'', ''<pull-secret>'')]\<rparr>
        else Inl (Opaque ''not found'')),
      url_Parse = (\<lambda>s.
        if take 2 s = ''//'' then Inr \<lparr>Host = takeWhile (\<lambda>c. c \<noteq> CHR ''/'') (drop 2 s)\<rparr>
        else Inr \<lparr>Host = ''''\<rparr>),
      crane_Manifest = (\<lambda>ref options.
        case map_of example_manifests ref of
          None \<Rightarrow> Inl (Opaque ''MANIFEST_UNKNOWN'')
        | Some b \<Rightarrow> Inr b),
      crane_PullLayer = (\<lambda>ref options.
        case map_of example_layers ref of
          None \<Rightarrow> Inl (Opaque ''BLOB_UNKNOWN'')
        | Some l \<Rightarrow> Inr l),
      GOARCH = ''amd64'',
      Unmarshal_Auths = (\<lambda>b.
        if b = ''<pull-secret>'' then Inr (map_of example_auths)
        else Inl (Opaque ''unexpected end of JSON input'')),
      Unmarshal_Object = (\<lambda>b.
        case map_of example_objects b of
          None \<Rightarrow> Inl (Opaque ''invalid character'')
        | Some obj \<Rightarrow> Inr obj),
      Unmarshal_Manifest = (\<lambda>b.
        if b = ''<manifest-3>''
        then Inr \<lparr>Layers = [example_descriptor ''c0'' None, example_descriptor ''c1'' None,
                              example_descriptor ''c2'' None]\<rparr>
        else if b = ''<manifest-0>'' then Inr \<lparr>Layers = []\<rparr>
        else Inl (Opaque ''invalid character'')),
      Unmarshal_IndexManifest = (\<lambda>b.
        if b = ''<index>''
        then Inr \<lparr>Manifests = [example_descriptor ''d0'' None,
                                 example_descriptor ''d2'' (Some ''arm64''),
                                 example_descriptor ''d1'' (Some ''amd64'')]\<rparr>
        else if b = ''<index-arm-only>''
        then Inr \<lparr>Manifests = [example_descriptor ''d2'' (Some ''arm64'')]\<rparr>
        else if b = ''<oci-index>''
        then Inr \<lparr>Manifests = [example_descriptor ''d2'' (Some ''arm64''),
                                 example_descriptor ''d1'' (Some ''amd64'')]\<rparr>
        else Inl (Opaque ''invalid character''))\<rparr>"


section \<open>Predicates used in the statements\<close>

text \<open>An item of the tar stream that is a readable header with a name other than
  the one looked for.\<close>

fun otherEntry :: "string \<Rightarrow> tar_item \<Rightarrow> bool" where
  "otherEntry headerName (Entry name content) = (name \<noteq> headerName)"
| "otherEntry headerName (NextError err) = False"

text \<open>What getHeaderFromLayer makes of the content of the entry it matched.\<close>

definition decodeEntry :: "env \<Rightarrow> lib_error + bytes \<Rightarrow> error + object" where
  "decodeEntry r content =
     (case content of
        Inl err \<Rightarrow> Inl (Lib err)
      | Inr buff \<Rightarrow>
          (case Unmarshal_Object r buff of
             Inl err \<Rightarrow> Inl (Lib err)
           | Inr obj \<Rightarrow> Inr obj))"

text \<open>The string held by a top-level field of an object, if the field is there and
  is a string; and the error that \<open>NestedString\<close> reports for a field that is not one
  (none for an absent key).\<close>

definition stringField :: "object \<Rightarrow> string \<Rightarrow> string option" where
  "stringField obj field =
     (case map_of obj field of Some (JString s) \<Rightarrow> Some s | _ \<Rightarrow> None)"

definition accessorError :: "object \<Rightarrow> string \<Rightarrow> lib_error option" where
  "accessorError obj field =
     (case map_of obj field of None \<Rightarrow> None | Some v \<Rightarrow> Some (AccessorError [field] v))"

text \<open>A JSON object; and an element of \<open>spec.tags\<close> that is an object whose
  \<open>name\<close> is not the one searched for, which the scan steps over.\<close>

fun isObject :: "json \<Rightarrow> bool" where
  "isObject (JObject m) = True"
| "isObject v = False"

fun otherTag :: "string \<Rightarrow> json \<Rightarrow> bool" where
  "otherTag name (JObject m) = (map_of m ''name'' \<noteq> Some (JString name))"
| "otherTag name v = False"

text \<open>An entry of a manifest list for the given architecture.\<close>

definition forArchitecture :: "string \<Rightarrow> Descriptor \<Rightarrow> bool" where
  "forArchitecture arch manifest =
     (case Platform manifest of Some p \<Rightarrow> Architecture p = arch | None \<Rightarrow> False)"


section \<open>Properties of the layer file extractor\<close>

lemma scanHeaders_skip:
  "list_all (otherEntry headerName) pre \<Longrightarrow>
   scanHeaders r headerName (pre @ rest) = scanHeaders r headerName rest"
proof (induction pre)
  case Nil
  show ?case by simp
next
  case (Cons it pre)
  then show ?case by (cases it) simp_all
qed

lemma scanHeaders_match:
  "scanHeaders r headerName (Entry headerName content # post) = (decodeEntry r content, post)"
  by (simp add: decodeEntry_def split: sum.splits)

text \<open>
  C2. The scan goes through the tar entries in stream order. At the first entry whose
  name equals the target path it reads and JSON-decodes that entry and returns, leaving
  every later entry unread; when the stream ends with no entry of that name it fails
  with the error "header ... not found in the layer".
\<close>

theorem getHeaderFromLayer_first_match_or_not_found:
  assumes "list_all (otherEntry headerName) pre"
  shows "scanHeaders r headerName (pre @ Entry headerName content # post)
           = (decodeEntry r content, post)
       \<and> getHeaderFromLayer r (TarGz (pre @ Entry headerName content # post)) headerName
           = decodeEntry r content
       \<and> scanHeaders r headerName pre = (Inl (HeaderNotFound headerName), [])
       \<and> getHeaderFromLayer r (TarGz pre) headerName = Inl (HeaderNotFound headerName)"
proof -
  have found: "scanHeaders r headerName (pre @ Entry headerName content # post)
                 = (decodeEntry r content, post)"
    using assms by (simp only: scanHeaders_skip scanHeaders_match)
  have "scanHeaders r headerName (pre @ []) = scanHeaders r headerName []"
    using assms by (rule scanHeaders_skip)
  then have missing: "scanHeaders r headerName pre = (Inl (HeaderNotFound headerName), [])"
    by simp
  show ?thesis
    using found missing by (simp add: getHeaderFromLayer_def)
qed

theorem getHeaderFromLayer_first_match_or_not_found_witness:
  "list_all (otherEntry ''etc/driver-toolkit-release.json'') [Entry ''a/b.json'' (Inr ''<other>'')]
   \<and> scanHeaders example_env ''etc/driver-toolkit-release.json''
         [Entry ''a/b.json'' (Inr ''<other>''),
          Entry ''etc/driver-toolkit-release.json'' (Inr ''<release>''),
          Entry ''c.txt'' (Inr ''<text>'')]
       = (Inr example_release, [Entry ''c.txt'' (Inr ''<text>'')])
   \<and> getHeaderFromLayer example_env (TarGz [Entry ''a/b.json'' (Inr ''<other>'')])
         ''etc/driver-toolkit-release.json''
       = Inl (HeaderNotFound ''etc/driver-toolkit-release.json'')"
proof -
  have h: "list_all (otherEntry ''etc/driver-toolkit-release.json'')
             [Entry ''a/b.json'' (Inr ''<other>'')]"
    by simp
  have d: "decodeEntry example_env (Inr ''<release>'') = Inr example_release"
    by (simp add: decodeEntry_def example_env_def example_objects_def)
  show ?thesis
    using h d
      getHeaderFromLayer_first_match_or_not_found
        [OF h, of example_env "Inr ''<release>''" "[Entry ''c.txt'' (Inr ''<text>'')]"]
    by simp
qed


section \<open>Properties of the driver-toolkit release projector\<close>

lemma NestedString_stringField:
  "NestedString obj [field] =
     (case stringField obj field of
        Some s \<Rightarrow> (s, True, None)
      | None \<Rightarrow> ('''', False, accessorError obj field))"
  by (simp add: NestedString_def NestedFieldNoCopy_def stringField_def accessorError_def
      split: option.splits json.splits)

lemma ExtractToolkitRelease_fields:
  assumes "getHeaderFromLayer r l ''etc/driver-toolkit-release.json'' = Inr obj"
  shows "ExtractToolkitRelease r l =
     (case stringField obj ''KERNEL_VERSION'' of
        None \<Rightarrow> Inl (FailedToGet ''KERNEL_VERSION'' (accessorError obj ''KERNEL_VERSION'') False)
      | Some k \<Rightarrow>
          (case stringField obj ''RT_KERNEL_VERSION'' of
             None \<Rightarrow>
               Inl (FailedToGet ''RT_KERNEL_VERSION'' (accessorError obj ''RT_KERNEL_VERSION'') False)
           | Some rt \<Rightarrow>
               (case stringField obj ''RHEL_VERSION'' of
                  None \<Rightarrow>
                    Inl (FailedToGet ''RHEL_VERSION'' (accessorError obj ''RHEL_VERSION'') False)
                | Some v \<Rightarrow>
                    Inr \<lparr>ImageURL = '''', KernelFullVersion = k, RTKernelFullVersion = rt,
                         OSVersion = v\<rparr>)))"
  using assms
  by (simp add: ExtractToolkitRelease_def NestedString_stringField split: option.splits)

lemma ExtractToolkitRelease_Inr_header:
  "ExtractToolkitRelease r l = Inr dtk \<Longrightarrow>
   \<exists>obj. getHeaderFromLayer r l ''etc/driver-toolkit-release.json'' = Inr obj"
  by (cases "getHeaderFromLayer r l ''etc/driver-toolkit-release.json''")
     (simp_all add: ExtractToolkitRelease_def)


text \<open>
  C1, as the code has it. ExtractToolkitRelease returns an entry exactly when the file
  etc/driver-toolkit-release.json is found and decoded and holds the three string
  fields KERNEL_VERSION, RT_KERNEL_VERSION and RHEL_VERSION; the entry then carries
  these three values in its kernel, real-time kernel and OS version, and its image URL,
  which this function never assigns, is the empty string. In every other case the
  result is an error, so no entry with only some of the three versions is returned.
\<close>

theorem ExtractToolkitRelease_all_or_error:
  "ExtractToolkitRelease r l = Inr dtk \<longleftrightarrow>
     (\<exists>obj k rt v.
        getHeaderFromLayer r l ''etc/driver-toolkit-release.json'' = Inr obj
      \<and> map_of obj ''KERNEL_VERSION'' = Some (JString k)
      \<and> map_of obj ''RT_KERNEL_VERSION'' = Some (JString rt)
      \<and> map_of obj ''RHEL_VERSION'' = Some (JString v)
      \<and> dtk = \<lparr>ImageURL = '''', KernelFullVersion = k, RTKernelFullVersion = rt,
                 OSVersion = v\<rparr>)"
proof
  assume res: "ExtractToolkitRelease r l = Inr dtk"
  then obtain obj where hdr: "getHeaderFromLayer r l ''etc/driver-toolkit-release.json'' = Inr obj"
    using ExtractToolkitRelease_Inr_header by blast
  from res obtain k rt v where
    "stringField obj ''KERNEL_VERSION'' = Some k"
    "stringField obj ''RT_KERNEL_VERSION'' = Some rt"
    "stringField obj ''RHEL_VERSION'' = Some v"
    "dtk = \<lparr>ImageURL = '''', KernelFullVersion = k, RTKernelFullVersion = rt, OSVersion = v\<rparr>"
    unfolding ExtractToolkitRelease_fields [OF hdr]
    by (auto split: option.splits)
  moreover have "\<And>f s. stringField obj f = Some s \<Longrightarrow> map_of obj f = Some (JString s)"
    by (auto simp: stringField_def split: option.splits json.splits)
  ultimately show "\<exists>obj k rt v.
        getHeaderFromLayer r l ''etc/driver-toolkit-release.json'' = Inr obj
      \<and> map_of obj ''KERNEL_VERSION'' = Some (JString k)
      \<and> map_of obj ''RT_KERNEL_VERSION'' = Some (JString rt)
      \<and> map_of obj ''RHEL_VERSION'' = Some (JString v)
      \<and> dtk = \<lparr>ImageURL = '''', KernelFullVersion = k, RTKernelFullVersion = rt,
                 OSVersion = v\<rparr>"
    using hdr by blast
next
  assume "\<exists>obj k rt v.
        getHeaderFromLayer r l ''etc/driver-toolkit-release.json'' = Inr obj
      \<and> map_of obj ''KERNEL_VERSION'' = Some (JString k)
      \<and> map_of obj ''RT_KERNEL_VERSION'' = Some (JString rt)
      \<and> map_of obj ''RHEL_VERSION'' = Some (JString v)
      \<and> dtk = \<lparr>ImageURL = '''', KernelFullVersion = k, RTKernelFullVersion = rt,
                 OSVersion = v\<rparr>"
  then obtain obj k rt v where
    hdr: "getHeaderFromLayer r l ''etc/driver-toolkit-release.json'' = Inr obj"
    and flds: "map_of obj ''KERNEL_VERSION'' = Some (JString k)"
      "map_of obj ''RT_KERNEL_VERSION'' = Some (JString rt)"
      "map_of obj ''RHEL_VERSION'' = Some (JString v)"
    and dtk: "dtk = \<lparr>ImageURL = '''', KernelFullVersion = k, RTKernelFullVersion = rt,
                      OSVersion = v\<rparr>"
    by blast
  show "ExtractToolkitRelease r l = Inr dtk"
    unfolding ExtractToolkitRelease_fields [OF hdr]
    using flds dtk by (simp add: stringField_def)
qed

theorem ExtractToolkitRelease_all_or_error_witness:
  "getHeaderFromLayer example_env example_release_layer ''etc/driver-toolkit-release.json''
     = Inr example_release
   \<and> ExtractToolkitRelease example_env example_release_layer
     = Inr \<lparr>ImageURL = '''', KernelFullVersion = ''5.14.0'',
            RTKernelFullVersion = ''5.14.0-rt'', OSVersion = ''9.2''\<rparr>"
proof -
  have hdr: "getHeaderFromLayer example_env example_release_layer
               ''etc/driver-toolkit-release.json'' = Inr example_release"
    by (simp add: getHeaderFromLayer_def example_release_layer_def example_env_def
        example_objects_def)
  have "\<exists>obj k rt v.
        getHeaderFromLayer example_env example_release_layer
          ''etc/driver-toolkit-release.json'' = Inr obj
      \<and> map_of obj ''KERNEL_VERSION'' = Some (JString k)
      \<and> map_of obj ''RT_KERNEL_VERSION'' = Some (JString rt)
      \<and> map_of obj ''RHEL_VERSION'' = Some (JString v)
      \<and> \<lparr>ImageURL = '''', KernelFullVersion = ''5.14.0'',
           RTKernelFullVersion = ''5.14.0-rt'', OSVersion = ''9.2''\<rparr>
        = \<lparr>ImageURL = '''', KernelFullVersion = k, RTKernelFullVersion = rt,
                 OSVersion = v\<rparr>"
    using hdr by (simp add: example_release_def)
  then show ?thesis
    using hdr ExtractToolkitRelease_all_or_error [of example_env example_release_layer]
    by simp
qed

text \<open>
  C1 as stated fails: on a layer whose release file holds the three string fields the
  entry returned has an empty image URL.
\<close>

theorem ExtractToolkitRelease_image_url_counterexample:
  "(case ExtractToolkitRelease example_env example_release_layer of
      Inr dtk \<Rightarrow> ImageURL dtk = ''''
    | Inl err \<Rightarrow> False)
   \<and> stringField example_release ''KERNEL_VERSION'' = Some ''5.14.0''
   \<and> stringField example_release ''RT_KERNEL_VERSION'' = Some ''5.14.0-rt''
   \<and> stringField example_release ''RHEL_VERSION'' = Some ''9.2''
   \<and> getHeaderFromLayer example_env example_release_layer ''etc/driver-toolkit-release.json''
       = Inr example_release"
  by (simp add: ExtractToolkitRelease_def getHeaderFromLayer_def example_release_layer_def
      example_env_def example_objects_def example_release_def NestedString_def
      NestedFieldNoCopy_def stringField_def)

text \<open>
  C7, as the code has it. The three fields are read in the order KERNEL_VERSION,
  RT_KERNEL_VERSION, RHEL_VERSION and the error names the first of them that is not a
  string field of the decoded object: a file lacking RT_KERNEL_VERSION gives the error
  naming RT_KERNEL_VERSION when KERNEL_VERSION is there, a file lacking KERNEL_VERSION
  gives the error naming KERNEL_VERSION, and a file lacking RHEL_VERSION gives the
  error naming RHEL_VERSION when the other two are there.
\<close>

theorem ExtractToolkitRelease_names_first_missing_field:
  assumes "getHeaderFromLayer r l ''etc/driver-toolkit-release.json'' = Inr obj"
  shows "(stringField obj ''KERNEL_VERSION'' = None \<longrightarrow>
            ExtractToolkitRelease r l
              = Inl (FailedToGet ''KERNEL_VERSION'' (accessorError obj ''KERNEL_VERSION'') False))
       \<and> (stringField obj ''KERNEL_VERSION'' \<noteq> None
            \<and> stringField obj ''RT_KERNEL_VERSION'' = None \<longrightarrow>
            ExtractToolkitRelease r l
              = Inl (FailedToGet ''RT_KERNEL_VERSION''
                      (accessorError obj ''RT_KERNEL_VERSION'') False))
       \<and> (stringField obj ''KERNEL_VERSION'' \<noteq> None
            \<and> stringField obj ''RT_KERNEL_VERSION'' \<noteq> None
            \<and> stringField obj ''RHEL_VERSION'' = None \<longrightarrow>
            ExtractToolkitRelease r l
              = Inl (FailedToGet ''RHEL_VERSION'' (accessorError obj ''RHEL_VERSION'') False))"
  unfolding ExtractToolkitRelease_fields [OF assms]
  by (simp split: option.splits)

theorem ExtractToolkitRelease_names_first_missing_field_witness:
  "getHeaderFromLayer example_env example_no_rt_layer ''etc/driver-toolkit-release.json''
     = Inr example_release_no_rt
   \<and> stringField example_release_no_rt ''KERNEL_VERSION'' \<noteq> None
   \<and> stringField example_release_no_rt ''RT_KERNEL_VERSION'' = None
   \<and> ExtractToolkitRelease example_env example_no_rt_layer
     = Inl (FailedToGet ''RT_KERNEL_VERSION'' None False)"
proof -
  have hdr: "getHeaderFromLayer example_env example_no_rt_layer
               ''etc/driver-toolkit-release.json'' = Inr example_release_no_rt"
    by (simp add: getHeaderFromLayer_def example_no_rt_layer_def example_env_def
        example_objects_def)
  have k: "stringField example_release_no_rt ''KERNEL_VERSION'' \<noteq> None"
    by (simp add: stringField_def example_release_no_rt_def)
  have rt: "stringField example_release_no_rt ''RT_KERNEL_VERSION'' = None"
    by (simp add: stringField_def example_release_no_rt_def)
  have e: "accessorError example_release_no_rt ''RT_KERNEL_VERSION'' = None"
    by (simp add: accessorError_def example_release_no_rt_def)
  show ?thesis
    using hdr k rt e ExtractToolkitRelease_names_first_missing_field [OF hdr]
    by simp
qed

text \<open>
  C7 as stated fails: a release file that lacks RT_KERNEL_VERSION and also
  KERNEL_VERSION gives the error that names KERNEL_VERSION, not RT_KERNEL_VERSION.
\<close>

theorem ExtractToolkitRelease_missing_rt_counterexample:
  "getHeaderFromLayer example_env example_only_rhel_layer ''etc/driver-toolkit-release.json''
     = Inr example_release_only_rhel
   \<and> map_of example_release_only_rhel ''RT_KERNEL_VERSION'' = None
   \<and> ExtractToolkitRelease example_env example_only_rhel_layer
     = Inl (FailedToGet ''KERNEL_VERSION'' None False)"
  by (simp add: ExtractToolkitRelease_def getHeaderFromLayer_def example_only_rhel_layer_def
      example_env_def example_objects_def example_release_only_rhel_def NestedString_def
      NestedFieldNoCopy_def)


section \<open>Properties of the image-references projectors\<close>

lemma NestedSlice_spec_tags:
  assumes "map_of obj ''spec'' = Some (JObject spec)"
    and "map_of spec ''tags'' = Some (JArray tags)"
  shows "NestedSlice obj [''spec'', ''tags''] = (tags, True, None)"
  using assms by (simp add: NestedSlice_def NestedFieldNoCopy_def)

lemma ReleaseManifests_tags_skip:
  "list_all (otherTag ''driver-toolkit'') pre \<Longrightarrow>
   ReleaseManifests_tags (pre @ rest) = ReleaseManifests_tags rest"
proof (induction pre)
  case Nil
  show ?case by simp
next
  case (Cons tag pre)
  then show ?case by (cases tag) simp_all
qed

lemma ReleaseImageMachineOSConfig_tags_skip:
  "list_all (otherTag ''machine-os-content'') pre \<Longrightarrow>
   ReleaseImageMachineOSConfig_tags (pre @ rest) = ReleaseImageMachineOSConfig_tags rest"
proof (induction pre)
  case Nil
  show ?case by simp
next
  case (Cons tag pre)
  then show ?case by (cases tag) simp_all
qed

lemma ReleaseManifests_tags_not_object:
  "\<not> isObject bad \<Longrightarrow> ReleaseManifests_tags (bad # post) = Panics (InterfaceConversion bad)"
  by (cases bad) simp_all

lemma ReleaseImageMachineOSConfig_tags_not_object:
  "\<not> isObject bad \<Longrightarrow>
   ReleaseImageMachineOSConfig_tags (bad # post) = Panics (InterfaceConversion bad)"
  by (cases bad) simp_all

lemma ReleaseManifests_tags_match:
  "map_of m ''name'' = Some (JString ''driver-toolkit'') \<Longrightarrow>
   ReleaseManifests_tags (JObject m # post) = ReleaseManifests_tags [JObject m]"
  by simp

lemma ReleaseImageMachineOSConfig_tags_match:
  "map_of m ''name'' = Some (JString ''machine-os-content'') \<Longrightarrow>
   ReleaseImageMachineOSConfig_tags (JObject m # post)
     = ReleaseImageMachineOSConfig_tags [JObject m]"
  by simp

text \<open>
  C9, as the code has it. Both scans assert, with no check, that each element of
  spec.tags they reach is a JSON object. When the array holds an element that is not
  an object and every element before it is an object whose name is not the one
  searched for, the scan reaches that element and panics on the type assertion,
  returning none of the projection errors. When instead the element after such a
  prefix is an object with the searched name, nothing after it is reached: the
  outcome is the one the scan of that element alone gives, whatever follows it.
\<close>

theorem tag_scans_panic_at_first_non_object:
  assumes "getHeaderFromLayer r l ''release-manifests/image-references'' = Inr obj"
    and "map_of obj ''spec'' = Some (JObject spec)"
    and "map_of spec ''tags'' = Some (JArray (pre @ tag # post))"
  shows "(\<not> isObject tag \<and> list_all (otherTag ''driver-toolkit'') pre \<longrightarrow>
            ReleaseManifests r l = Panics (InterfaceConversion tag))
       \<and> (\<not> isObject tag \<and> list_all (otherTag ''machine-os-content'') pre \<longrightarrow>
            ReleaseImageMachineOSConfig r l = Panics (InterfaceConversion tag))
       \<and> (tag = JObject m \<and> map_of m ''name'' = Some (JString ''driver-toolkit'')
            \<and> list_all (otherTag ''driver-toolkit'') pre \<longrightarrow>
            ReleaseManifests r l = ReleaseManifests_tags [tag])
       \<and> (tag = JObject m \<and> map_of m ''name'' = Some (JString ''machine-os-content'')
            \<and> list_all (otherTag ''machine-os-content'') pre \<longrightarrow>
            ReleaseImageMachineOSConfig r l = ReleaseImageMachineOSConfig_tags [tag])"
proof -
  have slice: "NestedSlice obj [''spec'', ''tags''] = (pre @ tag # post, True, None)"
    using assms(2,3) by (rule NestedSlice_spec_tags)
  have dtk: "ReleaseManifests r l = ReleaseManifests_tags (pre @ tag # post)"
    using assms(1) slice by (simp add: ReleaseManifests_def)
  have mos: "ReleaseImageMachineOSConfig r l
               = ReleaseImageMachineOSConfig_tags (pre @ tag # post)"
    using assms(1) slice by (simp add: ReleaseImageMachineOSConfig_def)
  have dtk_skip: "ReleaseManifests r l = ReleaseManifests_tags (tag # post)"
    if "list_all (otherTag ''driver-toolkit'') pre"
    using that dtk ReleaseManifests_tags_skip [of pre "tag # post"] by simp
  have mos_skip: "ReleaseImageMachineOSConfig r l = ReleaseImageMachineOSConfig_tags (tag # post)"
    if "list_all (otherTag ''machine-os-content'') pre"
    using that mos ReleaseImageMachineOSConfig_tags_skip [of pre "tag # post"] by simp
  have c1: "ReleaseManifests r l = Panics (InterfaceConversion tag)"
    if "\<not> isObject tag" "list_all (otherTag ''driver-toolkit'') pre"
    using dtk_skip [OF that(2)] ReleaseManifests_tags_not_object [OF that(1), of post]
    by (rule trans)
  have c2: "ReleaseImageMachineOSConfig r l = Panics (InterfaceConversion tag)"
    if "\<not> isObject tag" "list_all (otherTag ''machine-os-content'') pre"
    using mos_skip [OF that(2)] ReleaseImageMachineOSConfig_tags_not_object [OF that(1), of post]
    by (rule trans)
  have c3: "ReleaseManifests r l = ReleaseManifests_tags [tag]"
    if "tag = JObject m" "map_of m ''name'' = Some (JString ''driver-toolkit'')"
      "list_all (otherTag ''driver-toolkit'') pre"
    using dtk_skip [OF that(3)] ReleaseManifests_tags_match [OF that(2), of post]
    unfolding that(1) by (rule trans)
  have c4: "ReleaseImageMachineOSConfig r l = ReleaseImageMachineOSConfig_tags [tag]"
    if "tag = JObject m" "map_of m ''name'' = Some (JString ''machine-os-content'')"
      "list_all (otherTag ''machine-os-content'') pre"
    using mos_skip [OF that(3)] ReleaseImageMachineOSConfig_tags_match [OF that(2), of post]
    unfolding that(1) by (rule trans)
  show ?thesis
    using c1 c2 c3 c4 by blast
qed

theorem tag_scans_panic_at_first_non_object_witness:
  "getHeaderFromLayer example_env example_bad_tag_layer ''release-manifests/image-references''
     = Inr example_references_bad_tag
   \<and> \<not> isObject (JString ''driver-toolkit'')
   \<and> list_all (otherTag ''driver-toolkit'') [JObject [(''name'', JString ''foo'')]]
   \<and> list_all (otherTag ''machine-os-content'') [JObject [(''name'', JString ''foo'')]]
   \<and> ReleaseManifests example_env example_bad_tag_layer
       = Panics (InterfaceConversion (JString ''driver-toolkit''))
   \<and> ReleaseImageMachineOSConfig example_env example_bad_tag_layer
       = Panics (InterfaceConversion (JString ''driver-toolkit''))
   \<and> getHeaderFromLayer example_env example_references_layer
         ''release-manifests/image-references'' = Inr example_references
   \<and> ReleaseManifests example_env example_references_layer
       = ReleaseManifests_tags
           [JObject [(''name'', JString ''driver-toolkit''),
                     (''from'', JObject [(''name'', JString ''reg.io/dtk:v1'')])]]
   \<and> ReleaseImageMachineOSConfig example_env example_references_layer
       = ReleaseImageMachineOSConfig_tags
           [JObject [(''name'', JString ''machine-os-content''),
                     (''annotations'',
                      JObject [(''io.openshift.build.versions'', JString ''machine-os=9.2'')])]]"
proof -
  have hdr: "getHeaderFromLayer example_env example_bad_tag_layer
               ''release-manifests/image-references'' = Inr example_references_bad_tag"
    by (simp add: getHeaderFromLayer_def example_bad_tag_layer_def example_env_def
        example_objects_def)
  have spec: "map_of example_references_bad_tag ''spec''
                = Some (JObject [(''tags'', JArray example_bad_tags)])"
    by (simp add: example_references_bad_tag_def)
  have tags: "map_of [(''tags'', JArray example_bad_tags)] ''tags''
                = Some (JArray ([JObject [(''name'', JString ''foo'')]]
                    @ JString ''driver-toolkit''
                    # [JObject [(''name'', JString ''driver-toolkit''),
                         (''from'', JObject [(''name'', JString ''reg.io/dtk:v1'')])]]))"
    by (simp add: example_bad_tags_def)
  have hdr2: "getHeaderFromLayer example_env example_references_layer
               ''release-manifests/image-references'' = Inr example_references"
    by (simp add: getHeaderFromLayer_def example_references_layer_def example_env_def
        example_objects_def)
  have spec2: "map_of example_references ''spec''
                = Some (JObject [(''tags'', JArray example_tags)])"
    by (simp add: example_references_def)
  have tags_dtk: "map_of [(''tags'', JArray example_tags)] ''tags''
      = Some (JArray ([JObject [(''name'', JString ''foo'')]]
          @ JObject [(''name'', JString ''driver-toolkit''),
                     (''from'', JObject [(''name'', JString ''reg.io/dtk:v1'')])]
          # [JObject [(''name'', JString ''machine-os-content''),
                      (''annotations'',
                       JObject [(''io.openshift.build.versions'', JString ''machine-os=9.2'')])],
             JNumber 5]))"
    by (simp add: example_tags_def)
  have tags_mos: "map_of [(''tags'', JArray example_tags)] ''tags''
      = Some (JArray ([JObject [(''name'', JString ''foo'')],
                       JObject [(''name'', JString ''driver-toolkit''),
                                (''from'', JObject [(''name'', JString ''reg.io/dtk:v1'')])]]
          @ JObject [(''name'', JString ''machine-os-content''),
                      (''annotations'',
                       JObject [(''io.openshift.build.versions'', JString ''machine-os=9.2'')])]
          # [JNumber 5]))"
    by (simp add: example_tags_def)
  show ?thesis
    using hdr hdr2
      tag_scans_panic_at_first_non_object [OF hdr spec tags]
      tag_scans_panic_at_first_non_object [OF hdr2 spec2 tags_dtk,
        of "[(''name'', JString ''driver-toolkit''),
             (''from'', JObject [(''name'', JString ''reg.io/dtk:v1'')])]"]
      tag_scans_panic_at_first_non_object [OF hdr2 spec2 tags_mos,
        of "[(''name'', JString ''machine-os-content''),
             (''annotations'',
              JObject [(''io.openshift.build.versions'', JString ''machine-os=9.2'')])]"]
    by simp
qed

text \<open>
  C9 as stated fails: spec.tags of this file ends with the number 5, which is not an
  object, and both scans return the value of the tag they were looking for, which
  comes before it.
\<close>

theorem tag_scans_return_before_non_object_counterexample:
  "getHeaderFromLayer example_env example_references_layer
       ''release-manifests/image-references'' = Inr example_references
   \<and> NestedSlice example_references [''spec'', ''tags''] = (example_tags, True, None)
   \<and> last example_tags = JNumber 5
   \<and> \<not> isObject (JNumber 5)
   \<and> ReleaseManifests example_env example_references_layer = Returns (Inr ''reg.io/dtk:v1'')
   \<and> ReleaseImageMachineOSConfig example_env example_references_layer
       = Returns (Inr ''machine-os=9.2'')"
proof -
  have hdr: "getHeaderFromLayer example_env example_references_layer
               ''release-manifests/image-references'' = Inr example_references"
    by (simp add: getHeaderFromLayer_def example_references_layer_def example_env_def
        example_objects_def)
  have slice: "NestedSlice example_references [''spec'', ''tags''] = (example_tags, True, None)"
    by (simp add: NestedSlice_def NestedFieldNoCopy_def example_references_def)
  have dtk: "ReleaseManifests_tags example_tags = Returns (Inr ''reg.io/dtk:v1'')"
    by (simp add: example_tags_def)
  have mos: "ReleaseImageMachineOSConfig_tags example_tags = Returns (Inr ''machine-os=9.2'')"
    by (simp add: example_tags_def)
  have lst: "last example_tags = JNumber 5"
    by (simp add: example_tags_def)
  show ?thesis
    using hdr slice dtk mos lst
    by (simp add: ReleaseManifests_def ReleaseImageMachineOSConfig_def)
qed


section \<open>The test double at work\<close>

lemma example_secret:
  "GetSecret example_env pullSecretNamespace pullSecretName
     = Inr \<lparr>Data = map_of [(''.dockerconfigjson'', ''<pull-secret>'')]\<rparr>"
  by (simp add: example_env_def pullSecretNamespace_def pullSecretName_def)

lemma example_secret_data:
  "Data \<lparr>Data = map_of [(''.dockerconfigjson'', ''<pull-secret>'')]\<rparr> pullSecretFileName
     = Some ''<pull-secret>''"
  by (simp add: pullSecretFileName_def)

lemma example_secret_auths:
  "Unmarshal_Auths example_env ''<pull-secret>'' = Inr (map_of example_auths)"
  by (simp add: example_env_def)

lemma example_credentials:
  "getImageRegistryCredentials example_env ''reg.io'' = Inr \<lparr>Auth = ''abc'', Email = ''e@x.com''\<rparr>"
  "getImageRegistryCredentials example_env ''localhost:5000'' = Inr \<lparr>Auth = '''', Email = ''''\<rparr>"
  by (simp_all add: getImageRegistryCredentials_def example_secret pullSecretFileName_def
      example_secret_auths example_auths_def)

lemma example_registry:
  "registryFromImageURL example_env ''reg.io/dtk:v1'' = Inr ''reg.io''"
  "registryFromImageURL example_env ''reg.io/empty:v1'' = Inr ''reg.io''"
  "registryFromImageURL example_env ''reg.io/org/repo'' = Inr ''reg.io''"
  "registryFromImageURL example_env ''other.io/org/repo:v1'' = Inr ''other.io''"
  "registryFromImageURL example_env ''localhost:5000/repo'' = Inr ''localhost:5000''"
  by (simp_all add: registryFromImageURL_def example_env_def)

lemma example_repoOf:
  "repoOf ''reg.io/dtk:v1'' = ''reg.io/dtk''"
  "repoOf ''reg.io/empty:v1'' = ''reg.io/empty''"
  "repoOf ''localhost:5000/repo'' = ''localhost''"
  by (simp_all add: repoOf_def)

lemma example_fetch:
  "crane_Manifest example_env ''reg.io/dtk:v1'' options = Inr ''<manifest-3>''"
  "crane_Manifest example_env ''reg.io/multi:v1'' options = Inr ''<index>''"
  "crane_Manifest example_env ''reg.io/multi@sha256:d1'' options = Inr ''<manifest-3>''"
  "crane_Manifest example_env ''reg.io/oci:v1'' options = Inr ''<oci-index>''"
  "crane_Manifest example_env ''reg.io/oci@sha256:d1'' options = Inr ''<manifest-3>''"
  by (simp_all add: example_env_def example_manifests_def)

lemma example_generic_decode:
  "Unmarshal_Object example_env ''<manifest-3>''
     = Inr [(''mediaType'', JString ''application/vnd.docker.distribution.manifest.v2+json'')]"
  "Unmarshal_Object example_env ''<index>''
     = Inr [(''mediaType'', JString ''application/vnd.docker.distribution.manifest.list.v2+json'')]"
  "Unmarshal_Object example_env ''<oci-index>''
     = Inr [(''mediaType'', JString ''application/vnd.oci.image.index.v1+json'')]"
  by (simp_all add: example_env_def example_objects_def)

lemma example_index_decode:
  "Unmarshal_IndexManifest example_env ''<index>''
     = Inr \<lparr>Manifests = [example_descriptor ''d0'' None,
                           example_descriptor ''d2'' (Some ''arm64''),
                           example_descriptor ''d1'' (Some ''amd64'')]\<rparr>"
  "Unmarshal_IndexManifest example_env ''<oci-index>''
     = Inr \<lparr>Manifests = [example_descriptor ''d2'' (Some ''arm64''),
                           example_descriptor ''d1'' (Some ''amd64'')]\<rparr>"
  by (simp_all add: example_env_def)

lemma example_arch: "GOARCH example_env = ''amd64''"
  by (simp add: example_env_def)

lemma example_single_manifest:
  "getManifestStreamFromImage example_env ''reg.io/dtk:v1'' repo options = Inr ''<manifest-3>''"
  "getManifestStreamFromImage example_env ''reg.io/empty:v1'' repo options = Inr ''<manifest-0>''"
  "getManifestStreamFromImage example_env ''localhost:5000/repo'' repo options
     = Inr ''<manifest-3>''"
  by (simp_all add: getManifestStreamFromImage_def example_env_def example_manifests_def
      example_objects_def NestedString_stringField stringField_def)

lemma example_three_layers:
  "Unmarshal_Manifest example_env ''<manifest-3>''
     = Inr \<lparr>Layers = [example_descriptor ''c0'' None, example_descriptor ''c1'' None,
                        example_descriptor ''c2'' None]\<rparr>"
  by (simp add: example_env_def)

lemma example_no_layers:
  "Unmarshal_Manifest example_env ''<manifest-0>'' = Inr \<lparr>Layers = []\<rparr>"
  by (simp add: example_env_def)

lemma example_digests:
  "getLayersDigestsFromManifestStream example_env ''<manifest-3>''
     = Inr [''sha256:c0'', ''sha256:c1'', ''sha256:c2'']"
  by (simp add: getLayersDigestsFromManifestStream_def example_three_layers digestString_def
      example_descriptor_def)


section \<open>Properties of the manifest resolver\<close>

lemma strings_Contains_sublist: "strings_Contains s substr \<longleftrightarrow> sublist substr s"
  by (induction s) (simp_all add: sublist_Cons_right)

lemma NestedString_mediaType:
  "map_of release ''mediaType'' = Some (JString mt) \<Longrightarrow>
   NestedString release [''mediaType''] = (mt, True, None)"
  by (simp add: NestedString_stringField stringField_def)

lemma findArchitecture_find:
  "findArchitecture arch manifests =
     (case find (forArchitecture arch) manifests of
        None \<Rightarrow> Inl (ArchitectureNotFound arch)
      | Some manifest \<Rightarrow> Inr (Algorithm (Digest manifest) @ '':'' @ Hex (Digest manifest)))"
  by (induction manifests)
     (simp_all add: forArchitecture_def digestString_def split: option.splits)

text \<open>
  C4, as the code has it. The resolver takes the fetched manifest for a manifest list
  when its mediaType contains the text manifest.list, as the media type of a Docker
  manifest list does. Then, the manifest decoded as an index, it takes the first
  entry whose platform has the architecture of the running process and fetches the
  manifest again at repository@digest of that entry, the result of this second fetch
  being its result; when no entry has that architecture it fails with the error
  "Failed to find manifest for architecture", which carries the architecture. A
  manifest whose mediaType does not contain manifest.list, the OCI image index
  application/vnd.oci.image.index.v1+json among them, is returned as it was fetched:
  no entry is selected and nothing is fetched again.
\<close>

theorem getManifestStreamFromImage_selects_architecture:
  assumes "crane_Manifest r img options = Inr manifest"
    and "Unmarshal_Object r manifest = Inr release"
    and "map_of release ''mediaType'' = Some (JString mt)"
  shows "(sublist ''manifest.list'' mt \<and> Unmarshal_IndexManifest r manifest = Inr manifestList
            \<longrightarrow>
          getManifestStreamFromImage r img repo options =
            (case find (forArchitecture (GOARCH r)) (Manifests manifestList) of
               None \<Rightarrow> Inl (ArchitectureNotFound (GOARCH r))
             | Some sub \<Rightarrow>
                 (case crane_Manifest r
                         (repo @ ''@'' @ Algorithm (Digest sub) @ '':'' @ Hex (Digest sub))
                         options of
                    Inl err \<Rightarrow> Inl (Lib err)
                  | Inr stream \<Rightarrow> Inr stream)))
       \<and> (\<not> sublist ''manifest.list'' mt \<longrightarrow>
            getManifestStreamFromImage r img repo options = Inr manifest)"
  using assms
  by (simp add: getManifestStreamFromImage_def NestedString_mediaType
      getImageDigestFromMultiImage_def findArchitecture_find strings_Contains_sublist
      split: option.splits)

theorem getManifestStreamFromImage_selects_architecture_witness:
  "crane_Manifest example_env ''reg.io/multi:v1'' [] = Inr ''<index>''
   \<and> sublist ''manifest.list'' ''application/vnd.docker.distribution.manifest.list.v2+json''
   \<and> GOARCH example_env = ''amd64''
   \<and> Unmarshal_IndexManifest example_env ''<index>''
       = Inr \<lparr>Manifests = [example_descriptor ''d0'' None,
                             example_descriptor ''d2'' (Some ''arm64''),
                             example_descriptor ''d1'' (Some ''amd64'')]\<rparr>
   \<and> crane_Manifest example_env ''reg.io/multi@sha256:d1'' [] = Inr ''<manifest-3>''
   \<and> getManifestStreamFromImage example_env ''reg.io/multi:v1'' ''reg.io/multi'' []
       = Inr ''<manifest-3>''
   \<and> crane_Manifest example_env ''reg.io/dtk:v1'' [] = Inr ''<manifest-3>''
   \<and> \<not> sublist ''manifest.list'' ''application/vnd.docker.distribution.manifest.v2+json''
   \<and> getManifestStreamFromImage example_env ''reg.io/dtk:v1'' ''reg.io/dtk'' []
       = Inr ''<manifest-3>''"
proof -
  have mt: "map_of
      [(''mediaType'', JString ''application/vnd.docker.distribution.manifest.list.v2+json'')]
      ''mediaType''
      = Some (JString ''application/vnd.docker.distribution.manifest.list.v2+json'')"
    by simp
  have mt1: "map_of
      [(''mediaType'', JString ''application/vnd.docker.distribution.manifest.v2+json'')]
      ''mediaType''
      = Some (JString ''application/vnd.docker.distribution.manifest.v2+json'')"
    by simp
  have lst: "sublist ''manifest.list''
               ''application/vnd.docker.distribution.manifest.list.v2+json''"
    unfolding strings_Contains_sublist [symmetric] by simp
  have single: "\<not> sublist ''manifest.list''
               ''application/vnd.docker.distribution.manifest.v2+json''"
    unfolding strings_Contains_sublist [symmetric] by simp
  have sel: "find (forArchitecture (GOARCH example_env))
               (Manifests \<lparr>Manifests = [example_descriptor ''d0'' None,
                             example_descriptor ''d2'' (Some ''arm64''),
                             example_descriptor ''d1'' (Some ''amd64'')]\<rparr>)
             = Some (example_descriptor ''d1'' (Some ''amd64''))"
    by (simp add: example_arch forArchitecture_def example_descriptor_def)
  have multi: "getManifestStreamFromImage example_env ''reg.io/multi:v1'' ''reg.io/multi'' []
          = Inr ''<manifest-3>''"
    using getManifestStreamFromImage_selects_architecture
      [OF example_fetch(2) example_generic_decode(2) mt,
        of "\<lparr>Manifests = [example_descriptor ''d0'' None,
                             example_descriptor ''d2'' (Some ''arm64''),
                             example_descriptor ''d1'' (Some ''amd64'')]\<rparr>" "''reg.io/multi''"]
      lst example_index_decode(1)
    unfolding sel
    by (simp add: example_descriptor_def example_fetch(3))
  have plain: "getManifestStreamFromImage example_env ''reg.io/dtk:v1'' ''reg.io/dtk'' []
          = Inr ''<manifest-3>''"
    using getManifestStreamFromImage_selects_architecture
      [OF example_fetch(1) example_generic_decode(1) mt1,
        of "\<lparr>Manifests = []\<rparr>" "''reg.io/dtk''"]
      single
    by simp
  show ?thesis
    using multi plain lst single example_fetch example_arch example_index_decode(1)
    by simp
qed

text \<open>
  C4 as stated fails: the manifest fetched here has the mediaType of an OCI image
  index and an entry for the architecture of the process, and the resolver returns
  the index itself, with no entry selected and no second fetch (which would have given
  the manifest at reg.io/oci@sha256:d1).
\<close>

theorem getManifestStreamFromImage_oci_index_counterexample:
  "crane_Manifest example_env ''reg.io/oci:v1'' [] = Inr ''<oci-index>''
   \<and> Unmarshal_Object example_env ''<oci-index>''
       = Inr [(''mediaType'', JString ''application/vnd.oci.image.index.v1+json'')]
   \<and> Unmarshal_IndexManifest example_env ''<oci-index>''
       = Inr \<lparr>Manifests = [example_descriptor ''d2'' (Some ''arm64''),
                             example_descriptor ''d1'' (Some ''amd64'')]\<rparr>
   \<and> GOARCH example_env = ''amd64''
   \<and> crane_Manifest example_env ''reg.io/oci@sha256:d1'' [] = Inr ''<manifest-3>''
   \<and> getManifestStreamFromImage example_env ''reg.io/oci:v1'' ''reg.io/oci'' []
       = Inr ''<oci-index>''"
  by (simp add: getManifestStreamFromImage_def example_fetch example_generic_decode
      example_index_decode example_arch NestedString_def NestedFieldNoCopy_def)


section \<open>Properties of the credential resolver\<close>

text \<open>
  C5. Over a pull-secret document that decodes, credential resolution returns the
  auth entry of the host when the host is a key of the document and fails with
  "cluster PullSecret does not contain auth for registry <host>" when it is not; then
  GetLayersDigests fails with that error too, so an absent host is not taken for
  anonymous access. With the entry of the host, the registry calls of GetLayersDigests
  get no option when the Auth of the entry is the empty string and the WithAuth option
  of the entry otherwise.
\<close>

theorem credentials_present_or_NoAuthForRegistry:
  assumes "GetSecret r pullSecretNamespace pullSecretName = Inr s"
    and "Data s pullSecretFileName = Some doc"
    and "Unmarshal_Auths r doc = Inr auths"
  shows "getImageRegistryCredentials r host
           = (case auths host of None \<Rightarrow> Inl (NoAuthForRegistry host) | Some auth \<Rightarrow> Inr auth)
       \<and> (registryFromImageURL r img = Inr host \<and> auths host = None \<longrightarrow>
            GetLayersDigests r img = Inl (NoAuthForRegistry host))
       \<and> (registryFromImageURL r img = Inr host \<and> auths host = Some auth
            \<and> repoOf img \<noteq> '''' \<longrightarrow>
            GetLayersDigests r img =
              (let options = (if Auth auth = '''' then []
                              else [WithAuth \<lparr>Username = Email auth,
                                              AuthConfig_Auth = Auth auth\<rparr>])
               in case getManifestStreamFromImage r img (repoOf img) options of
                    Inl err \<Rightarrow> Inl err
                  | Inr manifest \<Rightarrow>
                      (case getLayersDigestsFromManifestStream r manifest of
                         Inl err \<Rightarrow> Inl err
                       | Inr digests \<Rightarrow> Inr (repoOf img, digests, options))))"
proof -
  have cred: "getImageRegistryCredentials r h
           = (case auths h of None \<Rightarrow> Inl (NoAuthForRegistry h) | Some a \<Rightarrow> Inr a)" for h
    using assms by (simp add: getImageRegistryCredentials_def)
  show ?thesis
    by (simp add: cred GetLayersDigests_def registryAuthsOf_def Let_def)
qed

theorem credentials_present_or_NoAuthForRegistry_witness:
  "getImageRegistryCredentials example_env ''reg.io'' = Inr \<lparr>Auth = ''abc'', Email = ''e@x.com''\<rparr>
   \<and> getImageRegistryCredentials example_env ''other.io'' = Inl (NoAuthForRegistry ''other.io'')
   \<and> registryFromImageURL example_env ''other.io/org/repo:v1'' = Inr ''other.io''
   \<and> GetLayersDigests example_env ''other.io/org/repo:v1'' = Inl (NoAuthForRegistry ''other.io'')
   \<and> registryFromImageURL example_env ''localhost:5000/repo'' = Inr ''localhost:5000''
   \<and> map_of example_auths ''localhost:5000'' = Some \<lparr>Auth = '''', Email = ''''\<rparr>
   \<and> repoOf ''localhost:5000/repo'' \<noteq> ''''
   \<and> GetLayersDigests example_env ''localhost:5000/repo''
       = Inr (''localhost'', [''sha256:c0'', ''sha256:c1'', ''sha256:c2''], [])
   \<and> registryFromImageURL example_env ''reg.io/dtk:v1'' = Inr ''reg.io''
   \<and> GetLayersDigests example_env ''reg.io/dtk:v1''
       = Inr (''reg.io/dtk'', [''sha256:c0'', ''sha256:c1'', ''sha256:c2''],
              [WithAuth \<lparr>Username = ''e@x.com'', AuthConfig_Auth = ''abc''\<rparr>])"
proof -
  have reg: "map_of example_auths ''reg.io'' = Some \<lparr>Auth = ''abc'', Email = ''e@x.com''\<rparr>"
    by (simp add: example_auths_def)
  have other: "map_of example_auths ''other.io'' = None"
    by (simp add: example_auths_def)
  have anon: "map_of example_auths ''localhost:5000'' = Some \<lparr>Auth = '''', Email = ''''\<rparr>"
    by (simp add: example_auths_def)
  show ?thesis
    using credentials_present_or_NoAuthForRegistry
        [OF example_secret example_secret_data example_secret_auths, of "''reg.io''"
          "''reg.io/dtk:v1''" "\<lparr>Auth = ''abc'', Email = ''e@x.com''\<rparr>"]
      credentials_present_or_NoAuthForRegistry
        [OF example_secret example_secret_data example_secret_auths,
          of "''other.io''" "''other.io/org/repo:v1''"]
      credentials_present_or_NoAuthForRegistry
        [OF example_secret example_secret_data example_secret_auths,
          of "''localhost:5000''" "''localhost:5000/repo''" "\<lparr>Auth = '''', Email = ''''\<rparr>"]
    by (simp add: reg other anon example_registry example_repoOf example_single_manifest
        example_digests)
qed


section \<open>Properties of the repository name\<close>

lemma strings_Split_not_Nil: "strings_Split s sep \<noteq> []"
  by (induction s) (auto split: list.splits)

lemma strings_Split_no_sep: "sep \<notin> set s \<Longrightarrow> strings_Split s sep = [s]"
  by (induction s) auto

lemma strings_Split_at_sep:
  "sep \<notin> set h \<Longrightarrow> strings_Split (h @ sep # rest) sep = h # strings_Split rest sep"
  by (induction h) auto

lemma repoOf_no_separator:
  "CHR ''@'' \<notin> set img \<Longrightarrow> CHR '':'' \<notin> set img \<Longrightarrow> repoOf img = ''''"
  by (simp add: repoOf_def strings_Split_no_sep)

lemma repoOf_first_colon:
  assumes "CHR ''@'' \<notin> set (host @ '':'' @ rest)" and "CHR '':'' \<notin> set host"
  shows "repoOf (host @ '':'' @ rest) = host"
proof -
  have "strings_Split (host @ '':'' @ rest) CHR ''@'' = [host @ '':'' @ rest]"
    using assms(1) by (rule strings_Split_no_sep)
  moreover have "strings_Split (host @ '':'' @ rest) CHR '':''
                   = host # strings_Split rest CHR '':''"
    using assms(2) by (simp add: strings_Split_at_sep)
  ultimately show ?thesis
    by (simp add: repoOf_def strings_Split_not_Nil)
qed

lemma findArchitecture_error:
  "findArchitecture arch manifests = Inl err \<Longrightarrow> err = ArchitectureNotFound arch"
  by (induction manifests) (auto split: option.splits if_splits)

lemma getManifestStreamFromImage_error:
  assumes "getManifestStreamFromImage r img repo options = Inl err"
  shows "(\<exists>e. err = Lib e) \<or> err = MediaTypeMissing img \<or> err = ArchitectureNotFound (GOARCH r)"
proof -
  have multi: "(\<exists>e. err = Lib e) \<or> err = ArchitectureNotFound (GOARCH r)"
    if "getImageDigestFromMultiImage r manifest = Inl err" for manifest
    using that findArchitecture_error [of "GOARCH r" _ err]
    by (auto simp: getImageDigestFromMultiImage_def split: sum.splits)
  show ?thesis
    using assms multi
    by (auto simp: getManifestStreamFromImage_def
        split: sum.splits prod.splits option.splits if_splits)
qed

lemma getLayersDigestsFromManifestStream_error:
  "getLayersDigestsFromManifestStream r stream = Inl err \<Longrightarrow> \<exists>e. err = Lib e"
  by (auto simp: getLayersDigestsFromManifestStream_def split: sum.splits)

text \<open>
  C6. A reference with no '@' and no ':' has no repository name: once the registry
  host is parsed and the credentials of the host are found, GetLayersDigests fails
  with "image url ... is not valid, does not contain hash or tag".
\<close>

theorem GetLayersDigests_no_hash_or_tag:
  assumes "CHR ''@'' \<notin> set img"
    and "CHR '':'' \<notin> set img"
    and "registryFromImageURL r img = Inr registry"
    and "getImageRegistryCredentials r registry = Inr auth"
  shows "GetLayersDigests r img = Inl (NoHashOrTag img)"
  using assms by (simp add: GetLayersDigests_def repoOf_no_separator)

theorem GetLayersDigests_no_hash_or_tag_witness:
  "CHR ''@'' \<notin> set ''reg.io/org/repo'' \<and> CHR '':'' \<notin> set ''reg.io/org/repo''
   \<and> registryFromImageURL example_env ''reg.io/org/repo'' = Inr ''reg.io''
   \<and> getImageRegistryCredentials example_env ''reg.io''
       = Inr \<lparr>Auth = ''abc'', Email = ''e@x.com''\<rparr>
   \<and> GetLayersDigests example_env ''reg.io/org/repo'' = Inl (NoHashOrTag ''reg.io/org/repo'')"
proof -
  have at: "CHR ''@'' \<notin> set ''reg.io/org/repo''"
    by simp
  have colon: "CHR '':'' \<notin> set ''reg.io/org/repo''"
    by simp
  show ?thesis
    using at colon example_registry(3) example_credentials(1)
      GetLayersDigests_no_hash_or_tag [OF at colon example_registry(3) example_credentials(1)]
    by simp
qed

text \<open>
  C10. A reference host:rest with no '@' and no ':' in the host part, where the ':'
  is the separator of the registry port and there is no tag or digest (such as
  localhost:5000/repo), is not rejected: once the registry host is parsed and its
  credentials are found, GetLayersDigests takes the part before the first ':' as the
  repository name, goes on to fetch the manifest with it, and whatever it returns is
  not the error "does not contain hash or tag"; a result it returns carries that
  prefix as its repository.
\<close>

theorem GetLayersDigests_port_taken_as_tag:
  assumes "img = host @ '':'' @ rest"
    and "host \<noteq> ''''"
    and "CHR '':'' \<notin> set host"
    and "CHR ''@'' \<notin> set img"
    and "registryFromImageURL r img = Inr registry"
    and "getImageRegistryCredentials r registry = Inr auth"
  shows "repoOf img = host
       \<and> GetLayersDigests r img \<noteq> Inl (NoHashOrTag img)
       \<and> GetLayersDigests r img =
           (case getManifestStreamFromImage r img host (registryAuthsOf auth) of
              Inl err \<Rightarrow> Inl err
            | Inr manifest \<Rightarrow>
                (case getLayersDigestsFromManifestStream r manifest of
                   Inl err \<Rightarrow> Inl err
                 | Inr digests \<Rightarrow> Inr (host, digests, registryAuthsOf auth)))"
proof -
  have repo: "repoOf img = host"
    using assms(1,3,4) repoOf_first_colon by simp
  have run: "GetLayersDigests r img =
           (case getManifestStreamFromImage r img host (registryAuthsOf auth) of
              Inl err \<Rightarrow> Inl err
            | Inr manifest \<Rightarrow>
                (case getLayersDigestsFromManifestStream r manifest of
                   Inl err \<Rightarrow> Inl err
                 | Inr digests \<Rightarrow> Inr (host, digests, registryAuthsOf auth)))"
    using assms(2,5,6) by (simp add: GetLayersDigests_def repo Let_def)
  have "GetLayersDigests r img \<noteq> Inl (NoHashOrTag img)"
  proof
    assume bad: "GetLayersDigests r img = Inl (NoHashOrTag img)"
    show False
    proof (cases "getManifestStreamFromImage r img host (registryAuthsOf auth)")
      case (Inl err)
      then have "err = NoHashOrTag img"
        using bad run by simp
      then show False
        using getManifestStreamFromImage_error [OF Inl] by auto
    next
      case (Inr manifest)
      show False
      proof (cases "getLayersDigestsFromManifestStream r manifest")
        case (Inl err)
        then have "err = NoHashOrTag img"
          using bad run Inr by simp
        then show False
          using getLayersDigestsFromManifestStream_error [OF Inl] by auto
      next
        case (Inr digests)
        then show False
          using bad run \<open>getManifestStreamFromImage r img host (registryAuthsOf auth) = Inr manifest\<close>
          by simp
      qed
    qed
  qed
  then show ?thesis
    using repo run by simp
qed

theorem GetLayersDigests_port_taken_as_tag_witness:
  "''localhost:5000/repo'' = ''localhost'' @ '':'' @ ''5000/repo''
   \<and> ''localhost'' \<noteq> ''''
   \<and> CHR '':'' \<notin> set ''localhost''
   \<and> CHR ''@'' \<notin> set ''localhost:5000/repo''
   \<and> registryFromImageURL example_env ''localhost:5000/repo'' = Inr ''localhost:5000''
   \<and> getImageRegistryCredentials example_env ''localhost:5000'' = Inr \<lparr>Auth = '''', Email = ''''\<rparr>
   \<and> repoOf ''localhost:5000/repo'' = ''localhost''
   \<and> GetLayersDigests example_env ''localhost:5000/repo''
       = Inr (''localhost'', [''sha256:c0'', ''sha256:c1'', ''sha256:c2''], [])"
proof -
  have img: "''localhost:5000/repo'' = ''localhost'' @ '':'' @ ''5000/repo''"
    by simp
  have host: "''localhost'' \<noteq> ''''"
    by simp
  have colon: "CHR '':'' \<notin> set ''localhost''"
    by simp
  have at: "CHR ''@'' \<notin> set ''localhost:5000/repo''"
    by simp
  have opts: "registryAuthsOf \<lparr>Auth = '''', Email = ''''\<rparr> = []"
    by (simp add: registryAuthsOf_def)
  show ?thesis
    using img host colon at example_registry(5) example_credentials(2)
      GetLayersDigests_port_taken_as_tag
        [OF img host colon at example_registry(5) example_credentials(2)]
    by (simp add: example_single_manifest(3) example_digests opts)
qed


section \<open>Properties of the digest list and of LastLayer\<close>

lemma GetLayersDigests_resolved:
  assumes "registryFromImageURL r img = Inr registry"
    and "getImageRegistryCredentials r registry = Inr auth"
    and "repoOf img \<noteq> ''''"
    and "getManifestStreamFromImage r img (repoOf img) (registryAuthsOf auth) = Inr stream"
    and "Unmarshal_Manifest r stream = Inr m"
  shows "GetLayersDigests r img
           = Inr (repoOf img, map (\<lambda>l. digestString (Digest l)) (Layers m), registryAuthsOf auth)"
  using assms
  by (simp add: GetLayersDigests_def getLayersDigestsFromManifestStream_def Let_def)

lemma LastLayer_of_digests:
  assumes "GetLayersDigests r img = Inr (repo, digests, options)"
  shows "LastLayer r img =
     (if digests = [] then Panics (IndexOutOfRange (- 1) 0)
      else Returns (PullLayer r (repo @ ''@'' @ last digests) options))"
proof (cases "digests = []")
  case True
  then show ?thesis
    using assms by (simp add: LastLayer_def)
next
  case False
  then have len: "0 < length digests"
    by simp
  then have idx: "nat (int (length digests) - 1) = length digests - 1"
    by simp
  have "digests ! (length digests - 1) = last digests"
    using False by (simp add: last_conv_nth)
  then show ?thesis
    using assms False len by (simp add: LastLayer_def Let_def idx)
qed



text \<open>
  C8. LastLayer is not total: when the manifest resolved for the image has an empty
  layer list, the digest list is empty, the index len(digests)-1 is -1 and LastLayer
  panics with an index out of range instead of returning an error. With a resolved
  manifest, it returns (the result of pulling the last digest) exactly when the layer
  list is not empty.
\<close>

theorem LastLayer_panics_on_empty_layer_list:
  assumes "registryFromImageURL r img = Inr registry"
    and "getImageRegistryCredentials r registry = Inr auth"
    and "repoOf img \<noteq> ''''"
    and "getManifestStreamFromImage r img (repoOf img) (registryAuthsOf auth) = Inr stream"
    and "Unmarshal_Manifest r stream = Inr m"
  shows "(Layers m = [] \<longrightarrow> LastLayer r img = Panics (IndexOutOfRange (- 1) 0))
       \<and> (Layers m \<noteq> [] \<longrightarrow>
            LastLayer r img
              = Returns (PullLayer r
                  (repoOf img @ ''@'' @ digestString (Digest (last (Layers m))))
                  (registryAuthsOf auth)))
       \<and> ((\<exists>res. LastLayer r img = Returns res) \<longleftrightarrow> Layers m \<noteq> [])"
  using LastLayer_of_digests [OF GetLayersDigests_resolved [OF assms]]
  by (simp add: last_map)

theorem LastLayer_panics_on_empty_layer_list_witness:
  "registryFromImageURL example_env ''reg.io/empty:v1'' = Inr ''reg.io''
   \<and> getImageRegistryCredentials example_env ''reg.io''
       = Inr \<lparr>Auth = ''abc'', Email = ''e@x.com''\<rparr>
   \<and> repoOf ''reg.io/empty:v1'' \<noteq> ''''
   \<and> getManifestStreamFromImage example_env ''reg.io/empty:v1'' (repoOf ''reg.io/empty:v1'')
         (registryAuthsOf \<lparr>Auth = ''abc'', Email = ''e@x.com''\<rparr>) = Inr ''<manifest-0>''
   \<and> Unmarshal_Manifest example_env ''<manifest-0>'' = Inr \<lparr>Layers = []\<rparr>
   \<and> LastLayer example_env ''reg.io/empty:v1'' = Panics (IndexOutOfRange (- 1) 0)"
proof -
  have repo: "repoOf ''reg.io/empty:v1'' \<noteq> ''''"
    by (simp add: example_repoOf)
  show ?thesis
    using repo example_registry(2) example_credentials(1) example_no_layers
      example_single_manifest(2)
      LastLayer_panics_on_empty_layer_list
        [OF example_registry(2) example_credentials(1) repo example_single_manifest(2)
          example_no_layers]
    by simp
qed

end
